theory Spec2Isabelle
  imports Main "HOL-Library.Word"
begin

unbundle bit_operations_syntax

section \<open>The interrupt descriptor table of xinOS (src/kernel/idt/idt.c)\<close>

text \<open>
  The target is 32-bit x86: a pointer has four bytes, multi-byte values are stored with
  the least significant byte first, and both structures are packed, so a field lies at
  the sum of the sizes of the fields before it.
\<close>

type_synonym u8 = "8 word"
type_synonym u16 = "16 word"
type_synonym u32 = "32 word"

subsection \<open>Memory of the table\<close>

text \<open>
  The storage of \<^verbatim>\<open>struct idt_entry idt[256]\<close> is a byte store addressed by the byte
  offset from \<^verbatim>\<open>&idt\<close>. The array itself is the offsets below \<open>sizeof_idt\<close>; an
  offset at or beyond it stands for whatever the linker placed behind the array.
\<close>

type_synonym mem = "nat \<Rightarrow> u8"

definition store8 :: "mem \<Rightarrow> nat \<Rightarrow> u8 \<Rightarrow> mem" where
  "store8 m a v = m(a := v)"

definition store16 :: "mem \<Rightarrow> nat \<Rightarrow> u16 \<Rightarrow> mem" where
  "store16 m a w = (m(a := ucast w))(a + 1 := ucast (drop_bit 8 w))"

definition load8 :: "mem \<Rightarrow> nat \<Rightarrow> u8" where
  "load8 m a = m a"

definition load16 :: "mem \<Rightarrow> nat \<Rightarrow> u16" where
  "load16 m a = push_bit 8 (ucast (m (a + 1))) OR ucast (m a)"

subsection \<open>struct idt_entry and struct idt_ptr\<close>

text \<open>
  \<^verbatim>\<open>struct idt_entry { uint16_t offset_1; uint16_t selector; uint8_t zero;
  uint8_t type; uint16_t offset_2; } __attribute__((packed));\<close>
  The record is the value of one slot; the field offsets are those of the packed layout.
\<close>

record idt_entry =
  offset_1 :: u16
  selector :: u16
  zero :: u8
  type :: u8
  offset_2 :: u16

definition at_offset_1 :: nat where "at_offset_1 = 0"
definition at_selector :: nat where "at_selector = 2"
definition at_zero :: nat where "at_zero = 4"
definition at_type :: nat where "at_type = 5"
definition at_offset_2 :: nat where "at_offset_2 = 6"

definition sizeof_idt_entry :: nat where
  "sizeof_idt_entry = 2 + 2 + 1 + 1 + 2"

definition sizeof_idt :: nat where
  "sizeof_idt = 256 * sizeof_idt_entry"

text \<open>\<^verbatim>\<open>&idt[index]\<close>, as a byte offset from \<^verbatim>\<open>&idt\<close>; \<^verbatim>\<open>index\<close> is a \<^verbatim>\<open>uint8_t\<close>.\<close>

definition entry_ptr :: "u8 \<Rightarrow> nat" where
  "entry_ptr index = unat index * sizeof_idt_entry"

text \<open>Reading \<^verbatim>\<open>idt[index]\<close> field by field.\<close>

definition read_entry :: "mem \<Rightarrow> u8 \<Rightarrow> idt_entry" where
  "read_entry m index =
     \<lparr> offset_1 = load16 m (entry_ptr index + at_offset_1),
       selector = load16 m (entry_ptr index + at_selector),
       zero = load8 m (entry_ptr index + at_zero),
       type = load8 m (entry_ptr index + at_type),
       offset_2 = load16 m (entry_ptr index + at_offset_2) \<rparr>"

text \<open>
  The handler address the hardware takes from a descriptor:
  \<^verbatim>\<open>offset_2 << 16 | offset_1\<close>.
\<close>

definition entry_address :: "idt_entry \<Rightarrow> u32" where
  "entry_address e = push_bit 16 (ucast (offset_2 e)) OR ucast (offset_1 e)"

text \<open>The present bit P is bit 7 of the type byte.\<close>

definition entry_present :: "idt_entry \<Rightarrow> bool" where
  "entry_present e = bit (type e) 7"

text \<open>\<^verbatim>\<open>struct idt_ptr { uint16_t size; uint32_t addr; } __attribute__((packed));\<close>\<close>

record idt_ptr =
  ptr_size :: u16
  ptr_addr :: u32

subsection \<open>What the file takes from elsewhere\<close>

text \<open>
  \<^verbatim>\<open>CODE_SEGMENT\<close> comes from kernel/definitions.h, the handlers \<^verbatim>\<open>int08\<close>,
  \<^verbatim>\<open>int32\<close> and \<^verbatim>\<open>int33\<close> from the included handler files, and the address of
  \<^verbatim>\<open>idt\<close> from the linker. They are parameters of the model. The selector is a
  16-bit value, as the field it is assigned to.
\<close>

record env =
  CODE_SEGMENT :: u16
  idt_location :: u32
  int08 :: u32
  int32 :: u32
  int33 :: u32

subsection \<open>Machine state\<close>

text \<open>
  The instructions \<^verbatim>\<open>lidt\<close> and \<^verbatim>\<open>sti\<close> act on the processor: \<open>idtr\<close> is the
  table register (\<open>None\<close> until a table is loaded) and \<open>iflag\<close> the interrupt enable
  flag. \<open>trace\<close> is the history of the steps taken, oldest first.
\<close>

datatype event =
  Ev_memset
  | Ev_lidt
  | Ev_register u8
  | Ev_sti

record machine =
  idt :: mem
  idtp :: idt_ptr
  idtr :: "idt_ptr option"
  iflag :: bool
  trace :: "event list"

subsection \<open>register_isr\<close>

text \<open>
  \<^verbatim>\<open>char *isr_byte_array = (char *) &isr;\<close> the four bytes of the pointer, lowest first.
\<close>

definition isr_byte_array :: "u32 \<Rightarrow> nat \<Rightarrow> u8" where
  "isr_byte_array isr k = ucast (drop_bit (8 * k) isr)"

definition register_isr :: "env \<Rightarrow> u32 \<Rightarrow> u8 \<Rightarrow> machine \<Rightarrow> machine" where
  "register_isr env isr index s =
     (let current_entry = entry_ptr index;
          m0 = idt s;
          m1 = store8 m0 (current_entry + at_offset_1) (isr_byte_array isr 0);
          m2 = store8 m1 (current_entry + at_offset_1 + 1) (isr_byte_array isr 1);
          m3 = store8 m2 (current_entry + at_offset_2) (isr_byte_array isr 2);
          m4 = store8 m3 (current_entry + at_offset_2 + 1) (isr_byte_array isr 3);
          m5 = store8 m4 (current_entry + at_zero) 0;
          m6 = store16 m5 (current_entry + at_selector) (CODE_SEGMENT env);
          m7 = store8 m6 (current_entry + at_type) 0x8E
      in s\<lparr>idt := m7, trace := trace s @ [Ev_register index]\<rparr>)"

definition register_exceptions :: "env \<Rightarrow> machine \<Rightarrow> machine" where
  "register_exceptions env s = register_isr env (int08 env) 0x8 s"

text \<open>The slot \<^verbatim>\<open>idt[index]\<close> of a state.\<close>

definition slot :: "machine \<Rightarrow> u8 \<Rightarrow> idt_entry" where
  "slot s index = read_entry (idt s) index"

subsection \<open>init_idt\<close>

text \<open>
  Modelled from the spec: \<^verbatim>\<open>memset\<close> of kernel/utils/mem.c, which is not among the
  sources. The specification gives its contract: given a memory region and a byte length,
  set every byte of the region; \<open>init_idt\<close> calls it with the value 0. Bytes outside the
  region keep their value.
\<close>

definition memset :: "mem \<Rightarrow> nat \<Rightarrow> u8 \<Rightarrow> nat \<Rightarrow> mem" where
  "memset m dest val n = (\<lambda>a. if dest \<le> a \<and> a < dest + n then val else m a)"

text \<open>
  Lines 81 and 82: \<^verbatim>\<open>idtp.size = (sizeof (struct idt_entry) * 256) - 1;\<close> and
  \<^verbatim>\<open>idtp.addr = (uint32_t) idt;\<close>. The size is computed in \<^verbatim>\<open>size_t\<close> and
  converted to the 16-bit field.
\<close>

definition set_idtp :: "env \<Rightarrow> machine \<Rightarrow> machine" where
  "set_idtp env s =
     (let s1 = s\<lparr>idtp := (idtp s)\<lparr>ptr_size := of_nat (sizeof_idt_entry * 256 - 1)\<rparr>\<rparr>
      in s1\<lparr>idtp := (idtp s1)\<lparr>ptr_addr := idt_location env\<rparr>\<rparr>)"

text \<open>Line 83: \<^verbatim>\<open>memset(&idt, 0, 256 * sizeof(struct idt_entry));\<close>\<close>

definition clear_idt :: "machine \<Rightarrow> machine" where
  "clear_idt s =
     s\<lparr>idt := memset (idt s) 0 0 (256 * sizeof_idt_entry), trace := trace s @ [Ev_memset]\<rparr>"

text \<open>Line 84: \<^verbatim>\<open>asm volatile ("lidt %0" : : "m"(idtp));\<close> loads the table register from \<^verbatim>\<open>idtp\<close>.\<close>

definition lidt :: "machine \<Rightarrow> machine" where
  "lidt s = s\<lparr>idtr := Some (idtp s), trace := trace s @ [Ev_lidt]\<rparr>"

text \<open>Line 88: \<^verbatim>\<open>asm volatile ("sti");\<close> sets the interrupt enable flag.\<close>

definition sti :: "machine \<Rightarrow> machine" where
  "sti s = s\<lparr>iflag := True, trace := trace s @ [Ev_sti]\<rparr>"

definition init_idt :: "env \<Rightarrow> machine \<Rightarrow> machine" where
  "init_idt env s =
     (let s1 = set_idtp env s;
          s2 = clear_idt s1;
          s3 = lidt s2;
          s4 = register_exceptions env s3;
          s5 = register_isr env (int32 env) 32 s4;
          s6 = register_isr env (int33 env) 33 s5
      in sti s6)"

subsection \<open>Vocabulary of the properties\<close>

text \<open>A slot whose eight bytes are zero.\<close>

definition empty_entry :: idt_entry where
  "empty_entry = \<lparr> offset_1 = 0, selector = 0, zero = 0, type = 0, offset_2 = 0 \<rparr>"

text \<open>The steps an operation adds to the history.\<close>

definition steps_of :: "(machine \<Rightarrow> machine) \<Rightarrow> machine \<Rightarrow> event list" where
  "steps_of f s = drop (length (trace s)) (trace (f s))"


text \<open>
  The invariant of the table: a slot is all zero, or \<open>register_isr\<close> has written it and
  it carries the type byte 0x8E, the configured selector and a zero reserved byte.
\<close>

definition idt_inv :: "env \<Rightarrow> machine \<Rightarrow> bool" where
  "idt_inv env s =
     (\<forall>index. slot s index = empty_entry \<or>
        (Ev_register index \<in> set (trace s) \<and>
         type (slot s index) = 0x8E \<and>
         selector (slot s index) = CODE_SEGMENT env \<and>
         zero (slot s index) = 0))"

text \<open>
  The Descriptor Encoder in the words of the specification (section 4.1): it takes the
  entry address, the vector index and an attribute byte, and stores the attribute byte
  as it is. It is here to be compared with \<open>register_isr\<close>.
\<close>

definition spec_descriptor_encoder :: "env \<Rightarrow> u32 \<Rightarrow> u8 \<Rightarrow> u8 \<Rightarrow> machine \<Rightarrow> machine" where
  "spec_descriptor_encoder env entry_addr vector_index attribute_byte s =
     (let p = entry_ptr vector_index;
          m1 = store16 (idt s) (p + at_offset_1) (ucast entry_addr);
          m2 = store16 m1 (p + at_offset_2) (ucast (drop_bit 16 entry_addr));
          m3 = store16 m2 (p + at_selector) (CODE_SEGMENT env);
          m4 = store8 m3 (p + at_zero) 0;
          m5 = store8 m4 (p + at_type) attribute_byte
      in s\<lparr>idt := m5\<rparr>)"

subsection \<open>A concrete configuration\<close>

text \<open>
  The addresses of the end-to-end scenario of the specification, the usual flat code
  selector, and a machine before initialisation whose table memory holds stale bytes.
\<close>

definition env_example :: env where
  "env_example =
     \<lparr> CODE_SEGMENT = 0x08, idt_location = 0x00200000,
       int08 = 0x00100020, int32 = 0x00100040, int33 = 0x00100060 \<rparr>"

definition stale_state :: machine where
  "stale_state =
     \<lparr> idt = (\<lambda>a. 0xFF), idtp = \<lparr> ptr_size = 0, ptr_addr = 0 \<rparr>,
       idtr = None, iflag = False, trace = [] \<rparr>"

section \<open>Properties\<close>

subsection \<open>Layout and the effect of each step\<close>

lemma sizeof_simps: "sizeof_idt_entry = 8" "sizeof_idt = 2048"
  by (simp_all add: sizeof_idt_def sizeof_idt_entry_def)

lemma entry_ptr_eq: "entry_ptr index = 8 * unat index"
  by (simp add: entry_ptr_def sizeof_idt_entry_def)

lemmas at_defs = at_offset_1_def at_offset_2_def at_zero_def at_selector_def at_type_def

lemma idt_register_isr:
  "idt (register_isr env isr index s) =
     (idt s)(entry_ptr index := isr_byte_array isr 0,
             entry_ptr index + 1 := isr_byte_array isr 1,
             entry_ptr index + 2 := ucast (CODE_SEGMENT env),
             entry_ptr index + 3 := ucast (drop_bit 8 (CODE_SEGMENT env)),
             entry_ptr index + 4 := 0,
             entry_ptr index + 5 := 0x8E,
             entry_ptr index + 6 := isr_byte_array isr 2,
             entry_ptr index + 7 := isr_byte_array isr 3)"
  unfolding register_isr_def Let_def store8_def store16_def at_defs
  by (auto simp add: fun_eq_iff)

lemma register_isr_frame:
  "a < entry_ptr index \<or> entry_ptr index + sizeof_idt_entry \<le> a \<Longrightarrow>
     idt (register_isr env isr index s) a = idt s a"
  by (auto simp add: idt_register_isr sizeof_simps)

lemma read_entry_cong:
  "(\<And>a. entry_ptr j \<le> a \<Longrightarrow> a < entry_ptr j + sizeof_idt_entry \<Longrightarrow> m a = m' a) \<Longrightarrow>
     read_entry m j = read_entry m' j"
  by (simp add: read_entry_def load16_def load8_def at_defs sizeof_simps)

lemma entry_ptr_apart:
  "j \<noteq> index \<Longrightarrow> entry_ptr j \<le> a \<Longrightarrow> a < entry_ptr j + sizeof_idt_entry \<Longrightarrow>
     a < entry_ptr index \<or> entry_ptr index + sizeof_idt_entry \<le> a"
proof -
  assume "j \<noteq> index" and a: "entry_ptr j \<le> a" "a < entry_ptr j + sizeof_idt_entry"
  then have "unat j \<noteq> unat index" by (simp add: word_unat_eq_iff)
  with a show ?thesis by (simp add: entry_ptr_eq sizeof_simps) arith
qed

lemma slot_register_isr_other:
  "j \<noteq> index \<Longrightarrow> slot (register_isr env isr index s) j = slot s j"
  unfolding slot_def
  by (rule read_entry_cong) (rule register_isr_frame, rule entry_ptr_apart)

lemma slot_register_isr_same:
  "slot (register_isr env isr index s) index =
     \<lparr> offset_1 = ucast isr, selector = CODE_SEGMENT env, zero = 0, type = 0x8E,
       offset_2 = ucast (drop_bit 16 isr) \<rparr>"
proof -
  have sel: "push_bit 8 (ucast (ucast (drop_bit 8 c :: u16) :: u8)) OR ucast (ucast c :: u8) = c"
    for c :: u16
    by (rule bit_word_eqI) (auto simp add: bit_simps)
  have lo: "push_bit 8 (ucast (isr_byte_array isr 1)) OR ucast (isr_byte_array isr 0)
      = (ucast isr :: u16)"
    unfolding isr_byte_array_def by (rule bit_word_eqI) (auto simp add: bit_simps)
  have hi: "push_bit 8 (ucast (isr_byte_array isr 3)) OR ucast (isr_byte_array isr 2)
      = (ucast (drop_bit 16 isr) :: u16)"
    unfolding isr_byte_array_def by (rule bit_word_eqI) (auto simp add: bit_simps)
  show ?thesis
    by (simp add: slot_def read_entry_def idt_register_isr load16_def load8_def at_defs
        sel lo [unfolded One_nat_def] hi)
qed

lemma trace_register_isr:
  "trace (register_isr env isr index s) = trace s @ [Ev_register index]"
  by (simp add: register_isr_def Let_def)

lemma others_register_isr:
  "idtp (register_isr env isr index s) = idtp s"
  "idtr (register_isr env isr index s) = idtr s"
  "iflag (register_isr env isr index s) = iflag s"
  by (simp_all add: register_isr_def Let_def)

lemma trace_init_idt:
  "trace (init_idt env s) =
     trace s @ [Ev_memset, Ev_lidt, Ev_register 8, Ev_register 32, Ev_register 33, Ev_sti]"
  by (simp add: init_idt_def Let_def sti_def trace_register_isr register_exceptions_def
      lidt_def clear_idt_def set_idtp_def)


lemma slot_clear_idt: "slot (clear_idt s) index = empty_entry"
proof -
  have "unat index < 256" using unsigned_less [of index, where ?'a = nat] by simp
  then have "entry_ptr index + 7 < 256 * sizeof_idt_entry"
    by (simp add: entry_ptr_eq sizeof_simps)
  then show ?thesis
    by (simp add: slot_def read_entry_def clear_idt_def memset_def load16_def load8_def
        at_defs empty_entry_def)
qed

lemma slot_simps:
  "slot (set_idtp env s) = slot s"
  "slot (lidt s) = slot s"
  "slot (sti s) = slot s"
  by (simp_all add: slot_def fun_eq_iff set_idtp_def lidt_def sti_def Let_def)

lemma slot_init_idt:
  "slot (init_idt env s) index =
     (if index = 33 then slot (register_isr env (int33 env) 33 s) 33
      else if index = 32 then slot (register_isr env (int32 env) 32 s) 32
      else if index = 8 then slot (register_isr env (int08 env) 8 s) 8
      else empty_entry)"
  by (simp add: init_idt_def Let_def slot_simps register_exceptions_def
      slot_register_isr_other slot_register_isr_same slot_clear_idt)

lemma entry_address_halves:
  "entry_address \<lparr> offset_1 = ucast isr, selector = sel, zero = z, type = ty,
     offset_2 = ucast (drop_bit 16 isr) \<rparr> = isr"
  unfolding entry_address_def
  by (rule bit_word_eqI) (auto simp add: bit_simps)

lemma idt_inv_register_isr:
  assumes "idt_inv env s"
  shows "idt_inv env (register_isr env isr index s)"
  unfolding idt_inv_def
proof
  fix j
  show "slot (register_isr env isr index s) j = empty_entry \<or>
        (Ev_register j \<in> set (trace (register_isr env isr index s)) \<and>
         type (slot (register_isr env isr index s) j) = 0x8E \<and>
         selector (slot (register_isr env isr index s) j) = CODE_SEGMENT env \<and>
         zero (slot (register_isr env isr index s) j) = 0)"
  proof (cases "j = index")
    case True
    then show ?thesis
      by (simp add: slot_register_isr_same trace_register_isr)
  next
    case False
    with assms [unfolded idt_inv_def, rule_format, of j] show ?thesis
      by (auto simp add: slot_register_isr_other trace_register_isr)
  qed
qed

lemma idt_inv_init_idt: "idt_inv env (init_idt env s)"
  unfolding idt_inv_def
  by (simp add: slot_init_idt slot_register_isr_same trace_init_idt)

subsection \<open>The claims\<close>

text \<open>
  C1. For every vector index and every 32-bit handler address, the two offset halves of
  the slot written by \<open>register_isr\<close>, put together as \<^verbatim>\<open>offset_2 << 16 | offset_1\<close>,
  are exactly the address.
\<close>

theorem register_isr_address_roundtrip:
  "entry_address (slot (register_isr env isr index s) index) = isr"
  unfolding entry_address_def slot_register_isr_same
  by (rule bit_word_eqI) (auto simp add: bit_simps)



text \<open>
  C3. \<open>init_idt\<close> is the run of its steps: the two assignments to \<^verbatim>\<open>idtp\<close>, the
  zero-fill, \<^verbatim>\<open>lidt\<close>, the three registrations and \<^verbatim>\<open>sti\<close>. In the state after
  the zero-fill and before any registration (right after the \<^verbatim>\<open>memset\<close>, and still
  after the \<^verbatim>\<open>lidt\<close> that follows it), each of the 256 slots is zero in all five
  fields, so its present flag reads absent; every byte of the table is zero.
\<close>

theorem cleared_table_all_zero:
  "init_idt env s =
     sti (register_isr env (int33 env) 33 (register_isr env (int32 env) 32
       (register_exceptions env (lidt (clear_idt (set_idtp env s)))))) \<and>
   slot (clear_idt (set_idtp env s)) index = empty_entry \<and>
   \<not> entry_present (slot (clear_idt (set_idtp env s)) index) \<and>
   slot (lidt (clear_idt (set_idtp env s))) index = empty_entry \<and>
   (\<forall>a < sizeof_idt. idt (clear_idt (set_idtp env s)) a = 0)"
proof -
  have "init_idt env s =
     sti (register_isr env (int33 env) 33 (register_isr env (int32 env) 32
       (register_exceptions env (lidt (clear_idt (set_idtp env s))))))"
    by (simp add: init_idt_def Let_def)
  moreover have "slot (clear_idt (set_idtp env s)) index = empty_entry"
    by (rule slot_clear_idt)
  moreover have "\<not> entry_present (slot (clear_idt (set_idtp env s)) index)"
    by (simp add: slot_clear_idt entry_present_def empty_entry_def)
  moreover have "slot (lidt (clear_idt (set_idtp env s))) index = empty_entry"
    by (simp add: slot_simps slot_clear_idt)
  moreover have "\<forall>a < sizeof_idt. idt (clear_idt (set_idtp env s)) a = 0"
    by (simp add: clear_idt_def memset_def sizeof_idt_def)
  ultimately show ?thesis by blast
qed

theorem cleared_table_all_zero_witness:
  "init_idt env_example stale_state =
     sti (register_isr env_example (int33 env_example) 33
       (register_isr env_example (int32 env_example) 32
         (register_exceptions env_example
           (lidt (clear_idt (set_idtp env_example stale_state)))))) \<and>
   slot (clear_idt (set_idtp env_example stale_state)) 33 = empty_entry \<and>
   (2047 < sizeof_idt \<and> idt (clear_idt (set_idtp env_example stale_state)) 2047 = 0)"
  using cleared_table_all_zero [of env_example stale_state 33]
  by (simp add: sizeof_simps)

text \<open>
  C4. \<open>register_isr\<close> changes no byte outside the eight bytes of slot \<open>index\<close>, so
  every other slot keeps its value, and it leaves \<^verbatim>\<open>idtp\<close> and the processor state
  alone. On a cleared table every other slot is still all zero, and when \<open>init_idt\<close>
  has registered the vectors 8, 32 and 33 the other 253 slots are all zero.
\<close>

theorem register_isr_touches_one_slot:
  "(a < entry_ptr index \<or> entry_ptr index + sizeof_idt_entry \<le> a \<longrightarrow>
      idt (register_isr env isr index s) a = idt s a) \<and>
   (j \<noteq> index \<longrightarrow> slot (register_isr env isr index s) j = slot s j) \<and>
   (j \<noteq> index \<longrightarrow> slot (register_isr env isr index (clear_idt s)) j = empty_entry) \<and>
   (j \<noteq> 8 \<and> j \<noteq> 32 \<and> j \<noteq> 33 \<longrightarrow> slot (init_idt env s) j = empty_entry) \<and>
   idtp (register_isr env isr index s) = idtp s \<and>
   idtr (register_isr env isr index s) = idtr s \<and>
   iflag (register_isr env isr index s) = iflag s"
  by (simp add: register_isr_frame slot_register_isr_other slot_clear_idt others_register_isr
      slot_init_idt)

theorem register_isr_touches_one_slot_witness:
  "entry_ptr 8 + sizeof_idt_entry \<le> 72 \<and> (9 :: u8) \<noteq> 8 \<and> (9 :: u8) \<noteq> 32 \<and> (9 :: u8) \<noteq> 33 \<and>
   idt (register_isr env_example 0x00100020 8 stale_state) 72 = idt stale_state 72 \<and>
   slot (register_isr env_example 0x00100020 8 stale_state) 9 = slot stale_state 9 \<and>
   slot (register_isr env_example 0x00100020 8 (clear_idt stale_state)) 9 = empty_entry \<and>
   slot (init_idt env_example stale_state) 9 = empty_entry"
  using register_isr_touches_one_slot
    [where a = 72 and index = 8 and env = env_example and isr = "0x00100020"
       and s = stale_state and j = 9]
  by (simp add: entry_ptr_eq sizeof_simps)

text \<open>
  C5. After \<open>init_idt\<close> the size field of \<^verbatim>\<open>idtp\<close> is 2047, which is
  8 * 256 - 1, and its addr field is the location of the table; the processor was given
  these values. The fields are set by the first two assignments, and no later step of
  \<open>init_idt\<close> and no registration changes them.
\<close>

theorem idtp_fixed:
  "idtp (init_idt env s) = \<lparr> ptr_size = 2047, ptr_addr = idt_location env \<rparr> \<and>
   unat (ptr_size (idtp (init_idt env s))) = 8 * 256 - 1 \<and>
   idtr (init_idt env s) = Some \<lparr> ptr_size = 2047, ptr_addr = idt_location env \<rparr> \<and>
   idtp (set_idtp env s) = \<lparr> ptr_size = 2047, ptr_addr = idt_location env \<rparr> \<and>
   idtp (clear_idt t) = idtp t \<and>
   idtp (lidt t) = idtp t \<and>
   idtp (register_isr env isr index t) = idtp t \<and>
   idtp (register_exceptions env t) = idtp t \<and>
   idtp (sti t) = idtp t"
  by (simp add: init_idt_def Let_def sti_def others_register_isr register_exceptions_def
      lidt_def clear_idt_def set_idtp_def sizeof_simps)

text \<open>
  C6, as the code has it. In the slot written by \<open>register_isr\<close> the selector is the
  configured code-segment selector, the reserved byte is zero, and the type byte is the
  constant 0x8E: present, privilege level 0, storage bit clear, gate type 1110 (32-bit
  interrupt gate). \<open>register_isr\<close> has no attribute parameter.
\<close>

theorem register_isr_fixed_fields:
  "selector (slot (register_isr env isr index s) index) = CODE_SEGMENT env \<and>
   zero (slot (register_isr env isr index s) index) = 0 \<and>
   type (slot (register_isr env isr index s) index) = 0x8E \<and>
   entry_present (slot (register_isr env isr index s) index) \<and>
   drop_bit 5 (type (slot (register_isr env isr index s) index)) AND 3 = 0 \<and>
   \<not> bit (type (slot (register_isr env isr index s) index)) 4 \<and>
   type (slot (register_isr env isr index s) index) AND 0xF = 0xE"
  by (simp add: slot_register_isr_same entry_present_def)

text \<open>
  C6 as stated has the caller supply the attribute byte, stored as it is. A caller of
  the specification's encoder who supplies 0x8F (a trap gate) finds 0x8F in the slot;
  \<open>register_isr\<close> takes no such byte and the slot does not hold 0x8F.
\<close>

theorem register_isr_attribute_counterexample:
  "type (slot (spec_descriptor_encoder env_example 0x00100020 8 0x8F stale_state) 8) = 0x8F \<and>
   type (slot (register_isr env_example 0x00100020 8 stale_state) 8) \<noteq> 0x8F"
  by (simp add: slot_register_isr_same)
    (simp add: spec_descriptor_encoder_def Let_def slot_def read_entry_def load8_def
      store8_def store16_def at_defs)


text \<open>
  C8. \<open>init_idt\<close> registers the double-fault handler at vector 8 (through
  \<open>register_exceptions\<close>), the clock handler at vector 32 and the keyboard handler at
  vector 33; when it returns each of the three slots holds the address of its handler and
  is present.
\<close>

theorem init_idt_populates:
  "entry_address (slot (init_idt env s) 8) = int08 env \<and>
   entry_address (slot (init_idt env s) 32) = int32 env \<and>
   entry_address (slot (init_idt env s) 33) = int33 env \<and>
   entry_present (slot (init_idt env s) 8) \<and>
   entry_present (slot (init_idt env s) 32) \<and>
   entry_present (slot (init_idt env s) 33) \<and>
   slot (init_idt env s) 8 \<noteq> empty_entry \<and>
   slot (init_idt env s) 32 \<noteq> empty_entry \<and>
   slot (init_idt env s) 33 \<noteq> empty_entry \<and>
   register_exceptions env t = register_isr env (int08 env) 8 t \<and>
   steps_of (register_exceptions env) t = [Ev_register 8]"
  by (simp add: slot_init_idt slot_register_isr_same entry_address_halves entry_present_def
      empty_entry_def register_exceptions_def steps_of_def trace_register_isr)

text \<open>
  C9. \<open>register_isr\<close> returns a state for every argument, without any check. The
  index is a \<^verbatim>\<open>uint8_t\<close>, hence below 256, so the eight bytes of \<^verbatim>\<open>idt[index]\<close> end
  within the table, and every byte that \<open>register_isr\<close> changes lies in those eight
  bytes and so inside the table.
\<close>

theorem register_isr_in_bounds:
  "unat index < 256 \<and>
   entry_ptr index + sizeof_idt_entry \<le> sizeof_idt \<and>
   (idt (register_isr env isr index s) a \<noteq> idt s a \<longrightarrow>
      entry_ptr index \<le> a \<and> a < entry_ptr index + sizeof_idt_entry \<and> a < sizeof_idt)"
proof -
  have idx: "unat index < 256"
    using unsigned_less [of index, where ?'a = nat] by simp
  then have fit: "entry_ptr index + sizeof_idt_entry \<le> sizeof_idt"
    by (simp add: entry_ptr_eq sizeof_simps)
  have "entry_ptr index \<le> a \<and> a < entry_ptr index + sizeof_idt_entry"
    if "idt (register_isr env isr index s) a \<noteq> idt s a"
  proof (rule ccontr)
    assume "\<not> (entry_ptr index \<le> a \<and> a < entry_ptr index + sizeof_idt_entry)"
    then have "a < entry_ptr index \<or> entry_ptr index + sizeof_idt_entry \<le> a"
      by arith
    then have "idt (register_isr env isr index s) a = idt s a"
      by (rule register_isr_frame)
    with that show False by simp
  qed
  with idx fit show ?thesis by auto
qed

theorem register_isr_in_bounds_witness:
  "idt (register_isr env_example 0x00100020 255 stale_state) 2047 \<noteq> idt stale_state 2047 \<and>
   entry_ptr 255 \<le> 2047 \<and> 2047 < entry_ptr 255 + sizeof_idt_entry \<and> 2047 < sizeof_idt"
  using register_isr_in_bounds [of 255 env_example "0x00100020" stale_state 2047]
  by (simp add: idt_register_isr entry_ptr_eq isr_byte_array_def stale_state_def)

text \<open>
  C10. The invariant \<open>idt_inv\<close> (each slot is all zero, or was registered and has type
  byte 0x8E, the configured selector and a zero reserved byte) is kept by
  \<open>register_isr\<close> and \<open>register_exceptions\<close> and holds after \<open>init_idt\<close> from any
  state.
\<close>

theorem idt_inv_kept:
  "(idt_inv env s \<longrightarrow> idt_inv env (register_isr env isr index s)) \<and>
   (idt_inv env s \<longrightarrow> idt_inv env (register_exceptions env s)) \<and>
   idt_inv env (init_idt env s)"
  by (simp add: idt_inv_register_isr idt_inv_init_idt register_exceptions_def)

theorem idt_inv_kept_witness:
  "idt_inv env_example (init_idt env_example stale_state) \<and>
   idt_inv env_example
     (register_isr env_example 0x00100080 0x80 (init_idt env_example stale_state)) \<and>
   idt_inv env_example (register_exceptions env_example (init_idt env_example stale_state))"
  using idt_inv_kept [of env_example stale_state]
    idt_inv_kept [of env_example "init_idt env_example stale_state" "0x00100080" "0x80"]
  by blast

end
